theory Spec2Isabelle
  imports Main "HOL-Library.Char_ord" "HOL-Library.List_Lexorder"
begin

text \<open>
  A model of \<^verbatim>\<open>main.py\<close>, the frame extractor. The program is a thin layer around
  two external binaries, so the world it runs in is part of the model: a file system,
  the environment variables, the behaviour of the commands it starts, and a trace of
  what it prints and starts. Every \<^verbatim>\<open>raise\<close> of the source and every exception it
  catches is a value of the type \<open>exn\<close>.

  Outside the model: symbolic links and paths of the Windows flavour; errors of the
  operating system other than a program that is not found and a file that stands where
  a directory is needed; \<^verbatim>\<open>KeyboardInterrupt\<close>; the rounding of floats.
\<close>

section \<open>Strings as Python sees them\<close>

text \<open>
  A character stands for a code point below 256. The functions of this section are the
  string methods that \<^verbatim>\<open>main.py\<close> calls: \<^verbatim>\<open>str.lower\<close>, \<^verbatim>\<open>str.lstrip\<close>,
  \<^verbatim>\<open>str.strip\<close>, \<^verbatim>\<open>str.split\<close>, \<^verbatim>\<open>str.rfind\<close>, \<^verbatim>\<open>int\<close> and \<^verbatim>\<open>", ".join\<close>.
\<close>

definition py_lower_char :: "char \<Rightarrow> char" where
  "py_lower_char c =
     (let n = of_char c :: nat
      in if (65 \<le> n \<and> n \<le> 90) \<or> (192 \<le> n \<and> n \<le> 222 \<and> n \<noteq> 215)
         then char_of (n + 32) else c)"

definition py_lower :: "string \<Rightarrow> string" where
  "py_lower s = map py_lower_char s"

definition lstrip_chars :: "char \<Rightarrow> string \<Rightarrow> string" where
  "lstrip_chars c s = dropWhile (\<lambda>x. x = c) s"

definition py_isspace :: "char \<Rightarrow> bool" where
  "py_isspace c =
     (let n = of_char c :: nat
      in (9 \<le> n \<and> n \<le> 13) \<or> (28 \<le> n \<and> n \<le> 32) \<or> n = 133 \<or> n = 160)"

definition py_strip :: "string \<Rightarrow> string" where
  "py_strip s = rev (dropWhile py_isspace (rev (dropWhile py_isspace s)))"

text \<open>\<^verbatim>\<open>s.split(sep)\<close> for a one-character separator: the empty string gives one empty field.\<close>

fun split_on :: "char \<Rightarrow> string \<Rightarrow> string list" where
  "split_on sep [] = [[]]"
| "split_on sep (x # xs) =
     (if x = sep then [] # split_on sep xs
      else (case split_on sep xs of
              [] \<Rightarrow> [[x]]
            | w # ws \<Rightarrow> (x # w) # ws))"

text \<open>\<^verbatim>\<open>s.rfind(c)\<close>: the index of the last occurrence, or -1.\<close>

fun rfind :: "char \<Rightarrow> string \<Rightarrow> int" where
  "rfind c [] = - 1"
| "rfind c (x # xs) =
     (let r = rfind c xs
      in if 0 \<le> r then r + 1 else if x = c then 0 else - 1)"

definition is_digit :: "char \<Rightarrow> bool" where
  "is_digit c = (let n = of_char c :: nat in 48 \<le> n \<and> n \<le> 57)"

definition digit_val :: "char \<Rightarrow> nat" where
  "digit_val c = of_char c - 48"

definition digits_val :: "string \<Rightarrow> nat" where
  "digits_val s = foldl (\<lambda>a c. 10 * a + digit_val c) 0 s"

text \<open>
  \<^verbatim>\<open>int(s)\<close> on a string: surrounding whitespace is dropped, one sign is allowed, the
  digits may be grouped by single underscores. \<open>None\<close> is the \<^verbatim>\<open>ValueError\<close>.
\<close>

definition digit_groups_ok :: "string \<Rightarrow> bool" where
  "digit_groups_ok s = list_all (\<lambda>g. g \<noteq> [] \<and> list_all is_digit g) (split_on (CHR ''_'') s)"

definition py_int :: "string \<Rightarrow> int option" where
  "py_int s =
     (let t = py_strip s;
          neg = (t \<noteq> [] \<and> hd t = CHR ''-'');
          body = (if t \<noteq> [] \<and> (hd t = CHR ''-'' \<or> hd t = CHR ''+'') then tl t else t)
      in if digit_groups_ok body
         then (let v = int (digits_val (filter (\<lambda>c. c \<noteq> CHR ''_'') body))
               in Some (if neg then - v else v))
         else None)"

fun join_with :: "string \<Rightarrow> string list \<Rightarrow> string" where
  "join_with sep [] = []"
| "join_with sep [x] = x"
| "join_with sep (x # y # ys) = x @ sep @ join_with sep (y # ys)"

section \<open>Paths\<close>

text \<open>
  A resolved \<^verbatim>\<open>pathlib.Path\<close> of the POSIX flavour is the list of its components below
  the root. Paths compare as Python compares them: component by component, each
  component as a string.
\<close>

type_synonym path = "string list"

definition str_of_path :: "path \<Rightarrow> string" where
  "str_of_path p = (if p = [] then ''/'' else concat (map (\<lambda>c. CHR ''/'' # c) p))"

definition path_name :: "path \<Rightarrow> string" where
  "path_name p = (if p = [] then [] else last p)"

text \<open>\<^verbatim>\<open>PurePath.suffix\<close> and \<^verbatim>\<open>PurePath.stem\<close>, on the final component.\<close>

definition name_suffix :: "string \<Rightarrow> string" where
  "name_suffix n =
     (let i = rfind (CHR ''.'') n
      in if 0 < i \<and> i < int (length n) - 1 then drop (nat i) n else [])"

definition name_stem :: "string \<Rightarrow> string" where
  "name_stem n =
     (let i = rfind (CHR ''.'') n
      in if 0 < i \<and> i < int (length n) - 1 then take (nat i) n else n)"

definition path_suffix :: "path \<Rightarrow> string" where
  "path_suffix p = name_suffix (path_name p)"

definition path_stem :: "path \<Rightarrow> string" where
  "path_stem p = name_stem (path_name p)"

text \<open>
  \<^verbatim>\<open>p / s\<close> for a relative string \<open>s\<close>: the string is cut at the slashes, empty
  components and single dots are dropped.
\<close>

definition joinpath :: "path \<Rightarrow> string \<Rightarrow> path" where
  "joinpath p s = p @ filter (\<lambda>c. c \<noteq> [] \<and> c \<noteq> ''.'') (split_on (CHR ''/'') s)"

section \<open>The file system\<close>

text \<open>
  A directory is the list of its entries in the order in which the system lists them.
\<close>

datatype fsnode = File | Dir "(string \<times> fsnode) list"

fun entries :: "fsnode \<Rightarrow> (string \<times> fsnode) list" where
  "entries File = []"
| "entries (Dir es) = es"

fun lookup :: "fsnode \<Rightarrow> path \<Rightarrow> fsnode option" where
  "lookup n [] = Some n"
| "lookup n (c # p) = (case map_of (entries n) c of None \<Rightarrow> None | Some m \<Rightarrow> lookup m p)"

definition path_exists :: "fsnode \<Rightarrow> path \<Rightarrow> bool" where
  "path_exists fs p = (lookup fs p \<noteq> None)"

definition is_file :: "fsnode \<Rightarrow> path \<Rightarrow> bool" where
  "is_file fs p = (lookup fs p = Some File)"

definition is_dir :: "fsnode \<Rightarrow> path \<Rightarrow> bool" where
  "is_dir fs p = (case lookup fs p of Some (Dir es) \<Rightarrow> True | _ \<Rightarrow> False)"

text \<open>
  \<^verbatim>\<open>folder.rglob("*")\<close>: the entries of the folder, then those of each of its
  subdirectories in turn. Each path comes with the node it names.
\<close>

fun rglob_all :: "path \<Rightarrow> fsnode \<Rightarrow> (path \<times> fsnode) list" where
  "rglob_all p File = []"
| "rglob_all p (Dir es) =
     map (\<lambda>e. (p @ [fst e], snd e)) es
     @ concat (map (\<lambda>e. rglob_all (p @ [fst e]) (snd e)) es)"

section \<open>Enumeration of the video files\<close>

definition video_extensions :: "string list" where
  "video_extensions =
     [''.mp4'', ''.mov'', ''.avi'', ''.mkv'', ''.webm'', ''.flv'', ''.wmv'', ''.m4v'',
      ''.mpg'', ''.mpeg'', ''.3gp'', ''.m2ts'', ''.mts'', ''.ts'', ''.vob'', ''.f4v'',
      ''.asf'', ''.rm'', ''.rmvb'', ''.ogv'', ''.mxf'', ''.gif'']"

definition is_video :: "path \<times> fsnode \<Rightarrow> bool" where
  "is_video e = (snd e = File \<and> py_lower (path_suffix (fst e)) \<in> set video_extensions)"

definition find_video_files :: "fsnode \<Rightarrow> path \<Rightarrow> path list" where
  "find_video_files fs folder_path =
     (case lookup fs folder_path of
        None \<Rightarrow> []
      | Some d \<Rightarrow> sort (map fst (filter is_video (rglob_all folder_path d))))"

section \<open>Values, exceptions and the world outside the program\<close>

text \<open>
  Python floats stay abstract: \<open>'f\<close> is the type of float values, and the conversion
  \<^verbatim>\<open>float(s)\<close>, the true division of two integers and the truth value of a float are
  given by the machine below. A number is an \<^verbatim>\<open>int\<close> or a \<^verbatim>\<open>float\<close>.
\<close>

datatype 'f pynum = PyInt int | PyFloat 'f

datatype exn =
    FileNotFoundError string
  | ValueError string
  | RuntimeError string
  | OSError string
  | CalledProcessError
  | IndexError
  | ZeroDivisionError
  | OtherError string

text \<open>
  A child process either cannot be started because the program is not found, or runs to
  its end: exit status, standard output, standard error, and the file system it leaves.
\<close>

datatype proc = SpawnNotFound | Exited int string string fsnode

record 'f video_info =
  duration :: "'f pynum"
  fps :: "'f pynum"
  width :: int
  height :: int

datatype 'f event =
    Spawn "string list"
  | Print_output_directory path
  | Print_warning_no_info
  | Print_processing string
  | Print_duration "'f pynum"
  | Print_fps "'f pynum"
  | Print_resolution int int
  | Print_extracting string string
  | Print_ffmpeg_error string
  | Print_extracted nat
  | Print_saved_to path
  | Print_extraction_exception exn
  | Print_no_videos path
  | Print_found nat string
  | Print_item nat nat string
  | Err_item string exn
  | Print_separator
  | Print_batch_complete
  | Print_processed int nat
  | Print_failed string
  | Print_summary_dir path
  | Err_error exn

text \<open>
  The state: the file system, the process environment, and the trace of what the program
  has printed (one event for each \<^verbatim>\<open>print\<close>, with the values it formats) and of the
  commands it has started.
\<close>

record 'f sys =
  disk :: fsnode
  environ :: "string \<rightharpoonup> string"
  trace :: "'f event list"

text \<open>
  The machine: how path strings resolve (\<^verbatim>\<open>Path(s).expanduser().resolve()\<close>), where
  \<^verbatim>\<open>main.py\<close> lies, what a command does when it is started on a file system under an
  environment, the float primitives, and \<^verbatim>\<open>eval\<close> outside the ratios of two decimal
  literals.
\<close>

record 'f machine =
  resolve :: "string \<Rightarrow> path"
  script_location :: path
  run :: "string list \<Rightarrow> fsnode \<Rightarrow> (string \<rightharpoonup> string) \<Rightarrow> proc"
  float_of_str :: "string \<Rightarrow> 'f option"
  truediv :: "int \<Rightarrow> int \<Rightarrow> 'f"
  fnonzero :: "'f \<Rightarrow> bool"
  eval_other :: "string \<Rightarrow> exn + 'f pynum"

definition emit :: "'f event \<Rightarrow> 'f sys \<Rightarrow> 'f sys" where
  "emit e s = s\<lparr>trace := trace s @ [e]\<rparr>"

definition emit_if :: "bool \<Rightarrow> 'f event list \<Rightarrow> 'f sys \<Rightarrow> 'f sys" where
  "emit_if b es s = (if b then s\<lparr>trace := trace s @ es\<rparr> else s)"

section \<open>The extractor\<close>

record extractor =
  video_path :: path
  output_dir :: path
  frame_rate :: string
  format :: string
  script_dir :: path
  ffmpeg_dir :: path
  ffmpeg_bin :: string
  ffprobe_bin :: string

text \<open>\<^verbatim>\<open>_setup_ffmpeg_paths\<close>: the bundled binaries when their directory exists.\<close>

definition setup_ffmpeg_paths :: "extractor \<Rightarrow> 'f sys \<Rightarrow> extractor \<times> 'f sys" where
  "setup_ffmpeg_paths ex s =
     (if path_exists (disk s) (ffmpeg_dir ex)
      then (let ffmpeg_path = str_of_path (ffmpeg_dir ex);
                current_path = (case environ s ''PATH'' of None \<Rightarrow> [] | Some v \<Rightarrow> v)
            in (ex\<lparr>ffmpeg_bin := str_of_path (joinpath (ffmpeg_dir ex) ''ffmpeg.exe''),
                    ffprobe_bin := str_of_path (joinpath (ffmpeg_dir ex) ''ffprobe.exe'')\<rparr>,
                s\<lparr>environ := (environ s)(''PATH'' \<mapsto> ffmpeg_path @ '':'' @ current_path)\<rparr>))
      else (ex\<lparr>ffmpeg_bin := ''ffmpeg'', ffprobe_bin := ''ffprobe''\<rparr>, s))"

text \<open>
  \<^verbatim>\<open>subprocess.run\<close> and \<^verbatim>\<open>subprocess.Popen\<close>: the command is recorded in the trace,
  and the file system is the one the process leaves.
\<close>

definition spawn :: "'f machine \<Rightarrow> string list \<Rightarrow> 'f sys \<Rightarrow> proc \<times> 'f sys" where
  "spawn M cmd s =
     (case run M cmd (disk s) (environ s) of
        SpawnNotFound \<Rightarrow> (SpawnNotFound, emit (Spawn cmd) s)
      | Exited rc out err d \<Rightarrow> (Exited rc out err d, (emit (Spawn cmd) s)\<lparr>disk := d\<rparr>))"

text \<open>\<^verbatim>\<open>_validate_inputs\<close>: \<open>None\<close> when no exception is raised.\<close>

definition validate_inputs :: "'f machine \<Rightarrow> extractor \<Rightarrow> 'f sys \<Rightarrow> exn option \<times> 'f sys" where
  "validate_inputs M ex s =
     (if \<not> path_exists (disk s) (video_path ex)
      then (Some (FileNotFoundError (''Video file not found: '' @ str_of_path (video_path ex))), s)
      else if \<not> is_file (disk s) (video_path ex)
      then (Some (ValueError (''Input path is not a file: '' @ str_of_path (video_path ex))), s)
      else (case spawn M [ffmpeg_bin ex, ''-version''] s of
              (SpawnNotFound, s') \<Rightarrow>
                (Some (RuntimeError
                   ''FFmpeg is not installed or not in PATH. Please install FFmpeg or ensure ffmpeg folder exists.''), s')
            | (Exited rc out err d, s') \<Rightarrow>
                (if rc \<noteq> 0 then (Some (RuntimeError ''FFmpeg check failed.''), s')
                 else (None, s'))))"

text \<open>
  \<^verbatim>\<open>mkdir(parents=True, exist_ok=True)\<close>: \<open>None\<close> when a regular file stands where a
  directory is needed (\<^verbatim>\<open>FileExistsError\<close> or \<^verbatim>\<open>NotADirectoryError\<close>).
\<close>

fun set_entry :: "string \<Rightarrow> fsnode \<Rightarrow> (string \<times> fsnode) list \<Rightarrow> (string \<times> fsnode) list" where
  "set_entry c n [] = [(c, n)]"
| "set_entry c n (e # es) = (if fst e = c then (c, n) # es else e # set_entry c n es)"

fun mkdir_p :: "path \<Rightarrow> fsnode \<Rightarrow> fsnode option" where
  "mkdir_p p File = None"
| "mkdir_p [] (Dir es) = Some (Dir es)"
| "mkdir_p (c # p) (Dir es) =
     (case mkdir_p p (case map_of es c of None \<Rightarrow> Dir [] | Some m \<Rightarrow> m) of
        None \<Rightarrow> None
      | Some m' \<Rightarrow> Some (Dir (set_entry c m' es)))"

definition create_output_directory :: "extractor \<Rightarrow> 'f sys \<Rightarrow> exn option \<times> 'f sys" where
  "create_output_directory ex s =
     (case mkdir_p (output_dir ex) (disk s) of
        None \<Rightarrow> (Some (OSError (str_of_path (output_dir ex))), s)
      | Some d \<Rightarrow> (None, emit (Print_output_directory (output_dir ex)) (s\<lparr>disk := d\<rparr>)))"

text \<open>
  \<^verbatim>\<open>VideoFrameExtractor.__init__\<close>: the attributes set before the binaries are
  located, then the three steps of the constructor.
\<close>

definition new_extractor :: "'f machine \<Rightarrow> string \<Rightarrow> string \<Rightarrow> string option \<Rightarrow> string \<Rightarrow> extractor" where
  "new_extractor M video output rate fmt =
     \<lparr>video_path = resolve M video,
      output_dir = resolve M output,
      frame_rate = (case rate of None \<Rightarrow> ''30'' | Some r \<Rightarrow> if r = [] then ''30'' else r),
      format = lstrip_chars (CHR ''.'') (py_lower fmt),
      script_dir = script_location M,
      ffmpeg_dir = joinpath (joinpath (script_location M) ''ffmpeg'') ''bin'',
      ffmpeg_bin = [],
      ffprobe_bin = []\<rparr>"

definition init ::
  "'f machine \<Rightarrow> string \<Rightarrow> string \<Rightarrow> string option \<Rightarrow> string \<Rightarrow> 'f sys \<Rightarrow> (exn + extractor) \<times> 'f sys" where
  "init M video output rate fmt s =
     (case setup_ffmpeg_paths (new_extractor M video output rate fmt) s of
        (ex, s1) \<Rightarrow>
          (case validate_inputs M ex s1 of
             (Some e, s2) \<Rightarrow> (Inl e, s2)
           | (None, s2) \<Rightarrow>
               (case create_output_directory ex s2 of
                  (Some e, s3) \<Rightarrow> (Inl e, s3)
                | (None, s3) \<Rightarrow> (Inr ex, s3))))"

section \<open>The metadata probe\<close>

definition probe_cmd :: "extractor \<Rightarrow> string list" where
  "probe_cmd ex =
     [ffprobe_bin ex, ''-v'', ''error'', ''-select_streams'', ''v:0'', ''-show_entries'',
      ''stream=duration,r_frame_rate,width,height'', ''-of'',
      ''default=noprint_wrappers=1:nokey=1:noprint_section_header=1'',
      str_of_path (video_path ex)]"

definition py_float :: "'f machine \<Rightarrow> string \<Rightarrow> exn + 'f pynum" where
  "py_float M s = (case float_of_str M s of None \<Rightarrow> Inl (ValueError s) | Some x \<Rightarrow> Inr (PyFloat x))"

definition py_int_exn :: "string \<Rightarrow> exn + int" where
  "py_int_exn s = (case py_int s of None \<Rightarrow> Inl (ValueError s) | Some n \<Rightarrow> Inr n)"

text \<open>
  \<^verbatim>\<open>eval(fps_str)\<close>. The quotient of two decimal integer literals is computed here, a zero
  denominator raising \<^verbatim>\<open>ZeroDivisionError\<close>; every other string is left to the machine.
\<close>

definition dec_literal :: "string \<Rightarrow> bool" where
  "dec_literal s =
     (s \<noteq> [] \<and> list_all is_digit s \<and> (hd s \<noteq> CHR ''0'' \<or> list_all (\<lambda>c. c = CHR ''0'') s))"

definition py_eval :: "'f machine \<Rightarrow> string \<Rightarrow> exn + 'f pynum" where
  "py_eval M s =
     (case split_on (CHR ''/'') s of
        [a, b] \<Rightarrow>
          (if dec_literal a \<and> dec_literal b
           then (if digits_val b = 0 then Inl ZeroDivisionError
                 else Inr (PyFloat (truediv M (int (digits_val a)) (int (digits_val b)))))
           else eval_other M s)
      | _ \<Rightarrow> eval_other M s)"

definition zero_info :: "'f video_info" where
  "zero_info = \<lparr>duration = PyInt 0, fps = PyInt 0, width = 0, height = 0\<rparr>"

text \<open>The body of the \<^verbatim>\<open>if len(lines) >= 4\<close> branch, in the order Python evaluates it.\<close>

definition parse_fields :: "'f machine \<Rightarrow> string list \<Rightarrow> exn + 'f video_info" where
  "parse_fields M lines =
     (case (if lines ! 0 \<noteq> [] then py_float M (lines ! 0) else Inr (PyInt 0)) of
        Inl e \<Rightarrow> Inl e
      | Inr d \<Rightarrow>
     (case (if CHR ''/'' \<in> set (lines ! 1) then py_eval M (lines ! 1) else py_float M (lines ! 1)) of
        Inl e \<Rightarrow> Inl e
      | Inr r \<Rightarrow>
     (case (if lines ! 2 \<noteq> [] then py_int_exn (lines ! 2) else Inr 0) of
        Inl e \<Rightarrow> Inl e
      | Inr w \<Rightarrow>
     (case (if lines ! 3 \<noteq> [] then py_int_exn (lines ! 3) else Inr 0) of
        Inl e \<Rightarrow> Inl e
      | Inr h \<Rightarrow> Inr \<lparr>duration = d, fps = r, width = w, height = h\<rparr>))))"

text \<open>\<^verbatim>\<open>except (subprocess.CalledProcessError, ValueError, IndexError)\<close>.\<close>

fun probe_handles :: "exn \<Rightarrow> bool" where
  "probe_handles CalledProcessError = True"
| "probe_handles (ValueError m) = True"
| "probe_handles IndexError = True"
| "probe_handles e = False"

definition probe_guard :: "exn + 'f video_info \<Rightarrow> 'f sys \<Rightarrow> (exn + 'f video_info) \<times> 'f sys" where
  "probe_guard r s =
     (case r of
        Inr info \<Rightarrow> (Inr info, s)
      | Inl e \<Rightarrow> if probe_handles e then (Inr zero_info, emit Print_warning_no_info s)
                 else (Inl e, s))"

definition get_video_info :: "'f machine \<Rightarrow> extractor \<Rightarrow> 'f sys \<Rightarrow> (exn + 'f video_info) \<times> 'f sys" where
  "get_video_info M ex s =
     (case spawn M (probe_cmd ex) s of
        (SpawnNotFound, s1) \<Rightarrow> probe_guard (Inl (FileNotFoundError (ffprobe_bin ex))) s1
      | (Exited rc out err d, s1) \<Rightarrow>
          (if rc \<noteq> 0 then probe_guard (Inl CalledProcessError) s1
           else (let lines = split_on (CHR 0x0A) (py_strip out)
                 in if 4 \<le> length lines then probe_guard (parse_fields M lines) s1
                    else (Inr zero_info, s1))))"

section \<open>Frame extraction\<close>

fun truthy :: "'f machine \<Rightarrow> 'f pynum \<Rightarrow> bool" where
  "truthy M (PyInt n) = (n \<noteq> 0)"
| "truthy M (PyFloat x) = fnonzero M x"

definition ffmpeg_cmd :: "extractor \<Rightarrow> string list" where
  "ffmpeg_cmd ex =
     [ffmpeg_bin ex, ''-i'', str_of_path (video_path ex), ''-vf'', ''fps='' @ frame_rate ex,
      ''-start_number'', ''0'',
      str_of_path (joinpath (output_dir ex) (''frame_%06d.'' @ format ex))]"

text \<open>
  \<^verbatim>\<open>output_dir.glob(pattern)\<close> for a pattern of one component: \<open>*\<close> stands for any run of
  characters and \<open>?\<close> for one character. Bracket expressions are not interpreted.
\<close>

fun wild_match :: "string \<Rightarrow> string \<Rightarrow> bool" where
  "wild_match [] [] = True"
| "wild_match [] (c # n) = False"
| "wild_match (p # ps) [] = (p = CHR ''*'' \<and> wild_match ps [])"
| "wild_match (p # ps) (c # n) =
     (if p = CHR ''*'' then wild_match ps (c # n) \<or> wild_match (p # ps) n
      else (p = CHR ''?'' \<or> p = c) \<and> wild_match ps n)"

definition listdir :: "fsnode \<Rightarrow> path \<Rightarrow> string list" where
  "listdir d p = (case lookup d p of None \<Rightarrow> [] | Some n \<Rightarrow> map fst (entries n))"

definition glob_names :: "fsnode \<Rightarrow> path \<Rightarrow> string \<Rightarrow> string list" where
  "glob_names d p pat = filter (wild_match pat) (listdir d p)"

definition info_lines :: "'f machine \<Rightarrow> extractor \<Rightarrow> 'f video_info \<Rightarrow> 'f event list" where
  "info_lines M ex info =
     [Print_processing (path_name (video_path ex))]
     @ (if truthy M (duration info)
        then [Print_duration (duration info), Print_fps (fps info),
              Print_resolution (width info) (height info)]
        else [])
     @ [Print_extracting (frame_rate ex) (format ex)]"

definition extract_frames :: "'f machine \<Rightarrow> extractor \<Rightarrow> bool \<Rightarrow> 'f sys \<Rightarrow> (exn + bool) \<times> 'f sys" where
  "extract_frames M ex verbose s =
     (case get_video_info M ex s of
        (Inl e, s1) \<Rightarrow> (Inl e, s1)
      | (Inr video_info, s1) \<Rightarrow>
          (let s2 = emit_if verbose (info_lines M ex video_info) s1
           in case spawn M (ffmpeg_cmd ex) s2 of
                (SpawnNotFound, s3) \<Rightarrow>
                  (Inr False, emit (Print_extraction_exception (FileNotFoundError (ffmpeg_bin ex))) s3)
              | (Exited rc out err d, s3) \<Rightarrow>
                  (if rc \<noteq> 0 then (Inr False, emit (Print_ffmpeg_error err) s3)
                   else (let extracted_frames =
                               length (glob_names (disk s3) (output_dir ex) (''frame_*.'' @ format ex))
                         in (Inr True,
                             emit_if verbose
                               [Print_extracted extracted_frames, Print_saved_to (output_dir ex)] s3)))))"

section \<open>The command line and the main program\<close>

record cli =
  cli_input :: string
  cli_output :: string
  cli_fps :: "string option"
  cli_format :: "string option"
  cli_quiet :: bool

record args =
  a_input :: string
  a_output :: string
  a_fps :: "string option"
  a_format :: string
  a_quiet :: bool

text \<open>\<^verbatim>\<open>parser.parse_args()\<close> with the defaults of the two options.\<close>

definition parse_args :: "cli \<Rightarrow> args" where
  "parse_args c =
     \<lparr>a_input = cli_input c, a_output = cli_output c, a_fps = cli_fps c,
      a_format = (case cli_format c of None \<Rightarrow> ''png'' | Some f \<Rightarrow> f),
      a_quiet = cli_quiet c\<rparr>"

text \<open>\<^verbatim>\<open>except (FileNotFoundError, ValueError, RuntimeError)\<close>, in the loop and around it.\<close>

fun main_handles :: "exn \<Rightarrow> bool" where
  "main_handles (FileNotFoundError m) = True"
| "main_handles (ValueError m) = True"
| "main_handles (RuntimeError m) = True"
| "main_handles e = False"

text \<open>The \<^verbatim>\<open>try\<close> body of one turn of the loop over the video files.\<close>

definition process_video ::
  "'f machine \<Rightarrow> args \<Rightarrow> path \<Rightarrow> path \<Rightarrow> 'f sys \<Rightarrow> (exn + bool) \<times> 'f sys" where
  "process_video M a output_base video_file s =
     (let video_name = path_stem video_file;
          video_output_dir = joinpath output_base video_name
      in case init M (str_of_path video_file) (str_of_path video_output_dir)
                (a_fps a) (a_format a) s of
           (Inl e, s1) \<Rightarrow> (Inl e, s1)
         | (Inr extractor, s1) \<Rightarrow> extract_frames M extractor (\<not> a_quiet a) s1)"

fun batch_loop ::
  "'f machine \<Rightarrow> args \<Rightarrow> path \<Rightarrow> nat \<Rightarrow> nat \<Rightarrow> path list \<Rightarrow> string list \<Rightarrow> 'f sys
     \<Rightarrow> (exn + string list) \<times> 'f sys" where
  "batch_loop M a output_base n_videos idx [] failed_videos s = (Inr failed_videos, s)"
| "batch_loop M a output_base n_videos idx (video_file # rest) failed_videos s =
     (case process_video M a output_base video_file
             (emit_if (\<not> a_quiet a) [Print_item idx n_videos (path_name video_file)] s) of
        (Inr success, s1) \<Rightarrow>
          batch_loop M a output_base n_videos (Suc idx) rest
            (if success then failed_videos else failed_videos @ [path_name video_file]) s1
      | (Inl e, s1) \<Rightarrow>
          (if main_handles e
           then batch_loop M a output_base n_videos (Suc idx) rest
                  (failed_videos @ [path_name video_file])
                  (emit (Err_item (path_name video_file) e) s1)
           else (Inl e, s1)))"

text \<open>
  How the process ends: \<^verbatim>\<open>sys.exit(n)\<close>, or an exception that nothing catches, on which
  the interpreter prints a traceback and exits with status 1.
\<close>

datatype ending = Exit int | Uncaught exn

fun exit_status :: "ending \<Rightarrow> int" where
  "exit_status (Exit n) = n"
| "exit_status (Uncaught e) = 1"

definition main_except :: "exn \<Rightarrow> 'f sys \<Rightarrow> ending \<times> 'f sys" where
  "main_except e s = (if main_handles e then (Exit 1, emit (Err_error e) s) else (Uncaught e, s))"

definition summary :: "nat \<Rightarrow> string list \<Rightarrow> path \<Rightarrow> 'f event list" where
  "summary n_videos failed_videos output_base =
     [Print_separator, Print_batch_complete,
      Print_processed (int n_videos - int (length failed_videos)) n_videos]
     @ (if failed_videos \<noteq> [] then [Print_failed (join_with '', '' failed_videos)] else [])
     @ [Print_summary_dir output_base]"

definition main :: "'f machine \<Rightarrow> cli \<Rightarrow> 'f sys \<Rightarrow> ending \<times> 'f sys" where
  "main M c s =
     (let a = parse_args c;
          input_path = resolve M (a_input a);
          output_base = resolve M (a_output a)
      in if is_dir (disk s) input_path
         then (let video_files = find_video_files (disk s) input_path
               in if video_files = []
                  then (Exit 1, emit (Print_no_videos input_path) s)
                  else (case batch_loop M a output_base (length video_files) 1 video_files []
                               (emit_if (\<not> a_quiet a)
                                  [Print_found (length video_files) (path_name input_path)] s) of
                          (Inl e, s1) \<Rightarrow> main_except e s1
                        | (Inr failed_videos, s1) \<Rightarrow>
                            (Exit (if failed_videos = [] then 0 else 1),
                             emit_if (\<not> a_quiet a)
                               (summary (length video_files) failed_videos output_base) s1)))
         else if is_file (disk s) input_path
         then (case init M (a_input a) (a_output a) (a_fps a) (a_format a) s of
                 (Inl e, s1) \<Rightarrow> main_except e s1
               | (Inr extractor, s1) \<Rightarrow>
                   (case extract_frames M extractor (\<not> a_quiet a) s1 of
                      (Inl e, s2) \<Rightarrow> main_except e s2
                    | (Inr success, s2) \<Rightarrow> (Exit (if success then 0 else 1), s2)))
         else main_except (FileNotFoundError (''Input path not found: '' @ str_of_path input_path)) s)"

section \<open>Notions used in the statements\<close>


text \<open>The commands started, in order, and the events that are output.\<close>

fun spawned :: "'f event list \<Rightarrow> string list list" where
  "spawned [] = []"
| "spawned (Spawn cmd # es) = cmd # spawned es"
| "spawned (e # es) = spawned es"

fun printed :: "'f event list \<Rightarrow> 'f event list" where
  "printed [] = []"
| "printed (Spawn cmd # es) = printed es"
| "printed (e # es) = e # printed es"


section \<open>A concrete machine for test runs\<close>

text \<open>
  Floats are kept as what they were made from. Path strings are absolute and resolve to
  their components. The behaviour of the external commands is a parameter.
\<close>

datatype sample_float = Parsed string | Quotient int int

fun sample_nonzero :: "sample_float \<Rightarrow> bool" where
  "sample_nonzero (Parsed s) = (\<exists>c \<in> set s. c \<noteq> CHR ''0'' \<and> c \<noteq> CHR ''.'')"
| "sample_nonzero (Quotient a b) = (a \<noteq> 0)"

definition sample_float_of_str :: "string \<Rightarrow> sample_float option" where
  "sample_float_of_str s =
     (if s \<noteq> [] \<and> list_all (\<lambda>c. is_digit c \<or> c = CHR ''.'') s \<and> list_ex is_digit s
         \<and> length (filter (\<lambda>c. c = CHR ''.'') s) \<le> 1
      then Some (Parsed s) else None)"

definition sample_machine :: "(string list \<Rightarrow> fsnode \<Rightarrow> proc) \<Rightarrow> sample_float machine" where
  "sample_machine behaviour =
     \<lparr>resolve = joinpath [],
      script_location = [''opt'', ''frames''],
      run = (\<lambda>cmd d env. behaviour cmd d),
      float_of_str = sample_float_of_str,
      truediv = Quotient,
      fnonzero = sample_nonzero,
      eval_other = (\<lambda>s. Inl (OtherError s))\<rparr>"

definition start :: "fsnode \<Rightarrow> sample_float sys" where
  "start d = \<lparr>disk = d, environ = Map.empty, trace = []\<rparr>"

text \<open>
  A disk with a flat folder of mixed files, a nested library in which two videos share
  their name, a batch of three videos, and an output directory that already holds files.
\<close>

definition disk1 :: fsnode where
  "disk1 =
     Dir [(''videos'', Dir [(''b.mov'', File), (''d.jpg'', File), (''a.mp4'', File), (''c.txt'', File)]),
          (''library'',
             Dir [(''y'', Dir [(''clip.mp4'', File), (''E.MKV'', File)]),
                  (''readme.txt'', File),
                  (''x'', Dir [(''clip.mp4'', File)])]),
          (''batch'', Dir [(''a.mp4'', File), (''b.mov'', File), (''c.mkv'', File)]),
          (''out'',
             Dir [(''frame_000000.png'', File), (''frame_000001.png'', File),
                  (''frame_0.jpg'', File), (''notes.txt'', File)])]"

definition probe_text :: "string \<Rightarrow> string" where
  "probe_text rate = join_with [CHR 0x0A] [''10.5'', rate, ''1920'', ''1080''] @ [CHR 0x0A]"

text \<open>
  External commands for the test runs: the version check succeeds, the probe answers as
  given, and the extraction fails on one input path and succeeds on all others. None
  of them writes to the disk.
\<close>

definition sample_tools :: "(fsnode \<Rightarrow> proc) \<Rightarrow> string \<Rightarrow> string list \<Rightarrow> fsnode \<Rightarrow> proc" where
  "sample_tools probe bad cmd d =
     (if cmd = [''ffmpeg'', ''-version''] then Exited 0 [] [] d
      else if hd cmd = ''ffprobe'' then probe d
      else if cmd ! 2 = bad then Exited 1 [] ''Invalid data found'' d
      else Exited 0 [] [] d)"

definition sample_extractor :: extractor where
  "sample_extractor =
     \<lparr>video_path = [''videos'', ''a.mp4''], output_dir = [''out''], frame_rate = ''15'',
      format = ''png'', script_dir = [''opt'', ''frames''],
      ffmpeg_dir = [''opt'', ''frames'', ''ffmpeg'', ''bin''],
      ffmpeg_bin = ''ffmpeg'', ffprobe_bin = ''ffprobe''\<rparr>"

definition ok_machine :: "sample_float machine" where
  "ok_machine = sample_machine (sample_tools (Exited 0 (probe_text ''30000/1001'') []) [])"

text \<open>A machine on which no command can be started.\<close>

definition bare_machine :: "sample_float machine" where
  "bare_machine = sample_machine (\<lambda>cmd d. SpawnNotFound)"

definition sample_cli :: "string \<Rightarrow> string \<Rightarrow> bool \<Rightarrow> cli" where
  "sample_cli i out q =
     \<lparr>cli_input = i, cli_output = out, cli_fps = None, cli_format = None, cli_quiet = q\<rparr>"

text \<open>
  Machines on which something goes wrong: the probing binary is missing; the probe
  reports the frame rate \<open>0/0\<close>; the extraction fails on one input path.
\<close>

definition no_probe_machine :: "sample_float machine" where
  "no_probe_machine = sample_machine (sample_tools (\<lambda>d. SpawnNotFound) [])"

definition zero_rate_machine :: "sample_float machine" where
  "zero_rate_machine = sample_machine (sample_tools (Exited 0 (probe_text ''0/0'') []) [])"

definition failing_machine :: "string \<Rightarrow> sample_float machine" where
  "failing_machine bad = sample_machine (sample_tools (Exited 0 (probe_text ''30000/1001'') []) bad)"

section \<open>Evaluation and basic facts\<close>

lemmas str_defs = Let_def char_of_def bit_Suc_0_iff py_strip_def py_isspace_def py_lower_def
  py_lower_char_def lstrip_chars_def is_digit_def digit_val_def digits_val_def
  digit_groups_ok_def py_int_def dec_literal_def str_of_path_def path_name_def name_suffix_def
  name_stem_def path_suffix_def path_stem_def joinpath_def

lemmas fs_defs = path_exists_def is_file_def is_dir_def listdir_def glob_names_def
  find_video_files_def is_video_def video_extensions_def

lemmas run_defs = emit_def emit_if_def setup_ffmpeg_paths_def spawn_def validate_inputs_def
  create_output_directory_def new_extractor_def init_def probe_cmd_def py_float_def py_int_exn_def py_eval_def
  zero_info_def parse_fields_def probe_guard_def get_video_info_def ffmpeg_cmd_def info_lines_def
  extract_frames_def parse_args_def process_video_def main_except_def summary_def main_def

lemmas sample_defs = sample_float_of_str_def sample_machine_def start_def disk1_def
  probe_text_def sample_tools_def sample_extractor_def ok_machine_def bare_machine_def
  sample_cli_def no_probe_machine_def zero_rate_machine_def failing_machine_def

lemma spawned_append: "spawned (xs @ ys) = spawned xs @ spawned ys"
  by (induction xs rule: spawned.induct) auto

lemma split_on_no_sep: "sep \<notin> set s \<Longrightarrow> split_on sep s = [s]"
  by (induction s) auto

lemma joinpath_name: "CHR ''/'' \<notin> set n \<Longrightarrow> n \<noteq> [] \<Longrightarrow> n \<noteq> ''.'' \<Longrightarrow> joinpath p n = p @ [n]"
  by (simp add: joinpath_def split_on_no_sep)

lemma spawn_trace: "spawn M cmd s = (r, s') \<Longrightarrow> trace s' = trace s @ [Spawn cmd]"
  by (auto simp: spawn_def emit_def split: proc.splits)

lemma probe_guard_spawned: "probe_guard r s = (x, s') \<Longrightarrow> spawned (trace s') = spawned (trace s)"
  by (auto simp: probe_guard_def emit_def spawned_append split: sum.splits if_splits)

lemma get_video_info_spawned:
  "get_video_info M ex s = (x, s') \<Longrightarrow> spawned (trace s') = spawned (trace s) @ [probe_cmd ex]"
  unfolding get_video_info_def
  by (auto split: prod.splits proc.splits if_splits simp: Let_def spawned_append
      dest!: spawn_trace probe_guard_spawned)

lemma emit_if_info_spawned:
  "spawned (trace (emit_if b (info_lines M ex info) s)) = spawned (trace s)"
  by (simp add: emit_if_def info_lines_def spawned_append)

lemma extract_frames_spawned:
  assumes g: "get_video_info M ex s = (Inr info, s1)"
  shows "spawned (trace (snd (extract_frames M ex verbose s)))
           = spawned (trace s) @ [probe_cmd ex, ffmpeg_cmd ex]"
proof -
  obtain r s3 where sp: "spawn M (ffmpeg_cmd ex) (emit_if verbose (info_lines M ex info) s1) = (r, s3)"
    by (cases "spawn M (ffmpeg_cmd ex) (emit_if verbose (info_lines M ex info) s1)")
  have t3: "spawned (trace s3) = spawned (trace s) @ [probe_cmd ex, ffmpeg_cmd ex]"
    using spawn_trace[OF sp] get_video_info_spawned[OF g]
    by (simp add: spawned_append emit_if_info_spawned)
  have "spawned (trace (snd (extract_frames M ex verbose s))) = spawned (trace s3)"
    using g sp
    by (auto simp: extract_frames_def Let_def emit_def emit_if_def spawned_append split: proc.splits)
  with t3 show ?thesis by simp
qed

lemma setup_fields:
  "setup_ffmpeg_paths ex0 s = (ex, s1) \<Longrightarrow>
     video_path ex = video_path ex0 \<and> output_dir ex = output_dir ex0
     \<and> frame_rate ex = frame_rate ex0 \<and> format ex = format ex0
     \<and> disk s1 = disk s \<and> trace s1 = trace s
     \<and> ffmpeg_bin ex = (if path_exists (disk s) (ffmpeg_dir ex0)
                         then str_of_path (joinpath (ffmpeg_dir ex0) ''ffmpeg.exe'') else ''ffmpeg'')"
  by (auto simp: setup_ffmpeg_paths_def Let_def split: if_splits)

lemma init_Inr:
  "init M video output rate fmt s = (Inr ex, s') \<Longrightarrow>
     \<exists>s1. setup_ffmpeg_paths (new_extractor M video output rate fmt) s = (ex, s1)"
  by (auto simp: init_def split: prod.splits option.splits)

lemma init_fields:
  assumes "init M video output rate fmt s = (Inr ex, s')"
  shows "video_path ex = resolve M video"
    and "output_dir ex = resolve M output"
    and "frame_rate ex = (case rate of None \<Rightarrow> ''30'' | Some r \<Rightarrow> if r = [] then ''30'' else r)"
    and "format ex = lstrip_chars (CHR ''.'') (py_lower fmt)"
proof -
  from init_Inr[OF assms] obtain s1 where
    "setup_ffmpeg_paths (new_extractor M video output rate fmt) s = (ex, s1)" by blast
  from setup_fields[OF this]
  show "video_path ex = resolve M video" "output_dir ex = resolve M output"
    "frame_rate ex = (case rate of None \<Rightarrow> ''30'' | Some r \<Rightarrow> if r = [] then ''30'' else r)"
    "format ex = lstrip_chars (CHR ''.'') (py_lower fmt)"
    by (simp_all add: new_extractor_def)
qed

lemma validate_missing:
  "\<not> path_exists (disk s) (video_path ex) \<Longrightarrow>
     validate_inputs M ex s
       = (Some (FileNotFoundError (''Video file not found: '' @ str_of_path (video_path ex))), s)"
  by (simp add: validate_inputs_def)


lemma lstrip_chars_split:
  "s = replicate (length (takeWhile (\<lambda>x. x = c) s)) c @ lstrip_chars c s"
  unfolding lstrip_chars_def by (induction s) simp_all

lemma lstrip_chars_shape: "\<exists>k. s = replicate k c @ lstrip_chars c s"
  using lstrip_chars_split by (rule exI)

lemma lstrip_chars_head: "lstrip_chars c s = [] \<or> hd (lstrip_chars c s) \<noteq> c"
  unfolding lstrip_chars_def using hd_dropWhile[of "\<lambda>x. x = c" s] by blast

lemma process_video_Inr:
  "process_video M a ob f s = (Inr b, t) \<Longrightarrow>
     \<exists>ex s1. init M (str_of_path f) (str_of_path (joinpath ob (path_stem f))) (a_fps a) (a_format a) s
                = (Inr ex, s1)
        \<and> extract_frames M ex (\<not> a_quiet a) s1 = (Inr b, t)"
  by (auto simp: process_video_def Let_def split: prod.splits sum.splits)

lemma extract_frames_Inr:
  "extract_frames M ex v s = (Inr b, t) \<Longrightarrow> \<exists>info s1. get_video_info M ex s = (Inr info, s1)"
  by (auto simp: extract_frames_def split: prod.splits sum.splits)

lemma process_video_pattern:
  assumes "process_video M a ob f s = (Inr b, t)"
  shows "last (last (spawned (trace t)))
           = str_of_path (joinpath (resolve M (str_of_path (joinpath ob (path_stem f))))
               (''frame_%06d.'' @ lstrip_chars (CHR ''.'') (py_lower (a_format a))))"
proof -
  from process_video_Inr[OF assms] obtain ex s1 where
    i: "init M (str_of_path f) (str_of_path (joinpath ob (path_stem f))) (a_fps a) (a_format a) s
          = (Inr ex, s1)"
    and e: "extract_frames M ex (\<not> a_quiet a) s1 = (Inr b, t)" by blast
  from extract_frames_Inr[OF e] obtain info s2 where "get_video_info M ex s1 = (Inr info, s2)"
    by blast
  from extract_frames_spawned[OF this, of "\<not> a_quiet a"] e
  have "last (spawned (trace t)) = ffmpeg_cmd ex" by simp
  then show ?thesis
    by (simp add: ffmpeg_cmd_def init_fields(2)[OF i] init_fields(4)[OF i])
qed


















section \<open>Enumeration: which files are selected, and in which order\<close>





section \<open>The extraction command\<close>

text \<open>
  Claim C2. When the probe returns, \<open>extract_frames\<close> starts two commands: the probe and
  then the extraction binary with the input path, the filter \<open>fps=\<close> followed by the
  rate, the start number 0, and the pattern \<open>frame_%06d.\<close> followed by the format,
  joined to the output directory. For a format without a slash the pattern is a file
  name in that directory.
\<close>

theorem extraction_command:
  "get_video_info M ex s = (Inr info, s1) \<Longrightarrow>
   spawned (trace (snd (extract_frames M ex verbose s)))
     = spawned (trace s) @
       [probe_cmd ex,
        [ffmpeg_bin ex, ''-i'', str_of_path (video_path ex), ''-vf'', ''fps='' @ frame_rate ex,
         ''-start_number'', ''0'',
         str_of_path (joinpath (output_dir ex) (''frame_%06d.'' @ format ex))]]
   \<and> (CHR ''/'' \<notin> set (format ex) \<longrightarrow>
        joinpath (output_dir ex) (''frame_%06d.'' @ format ex)
          = output_dir ex @ [''frame_%06d.'' @ format ex])"
proof -
  assume g: "get_video_info M ex s = (Inr info, s1)"
  have b: "CHR ''/'' \<notin> set (format ex) \<longrightarrow>
        joinpath (output_dir ex) (''frame_%06d.'' @ format ex)
          = output_dir ex @ [''frame_%06d.'' @ format ex]"
    by (auto intro!: joinpath_name)
  from extract_frames_spawned[OF g] b show ?thesis by (simp add: ffmpeg_cmd_def)
qed

theorem extraction_command_witness:
  "CHR ''/'' \<notin> set (format sample_extractor)
   \<and> spawned (trace (snd (extract_frames
        ok_machine
        sample_extractor True (start disk1))))
     = [probe_cmd sample_extractor,
        [''ffmpeg'', ''-i'', ''/videos/a.mp4'', ''-vf'', ''fps=15'', ''-start_number'', ''0'',
         ''/out/frame_%06d.png'']]"
proof -
  have "\<exists>info s1.
          get_video_info ok_machine sample_extractor (start disk1) = (Inr info, s1)"
    by (simp add: run_defs fs_defs str_defs sample_defs)
  then obtain info s1 where
    "get_video_info ok_machine
       sample_extractor (start disk1) = (Inr info, s1)"
    by blast
  from extraction_command[OF this, of True] show ?thesis
    by (simp add: sample_extractor_def start_def str_of_path_def joinpath_def)
qed

section \<open>Defaults of the options\<close>

text \<open>
  Claim C8, as amended. An absent \<open>--fps\<close> leaves the rate unset and an absent
  \<open>--format\<close> gives \<open>png\<close>. In the extractor an unset or empty rate becomes \<open>30\<close>
  and a non-empty rate is kept as it is; the format is the given one in lower case
  without its leading dots; the filter expression of the extraction command is \<open>fps=\<close>
  followed by the extractor's rate.
\<close>

theorem rate_and_format_defaults:
  "(cli_fps c = None \<longrightarrow> a_fps (parse_args c) = None)
   \<and> (cli_format c = None \<longrightarrow> a_format (parse_args c) = ''png'')
   \<and> (init M video output rate fmt s = (Inr ex, s') \<longrightarrow>
        (rate = None \<or> rate = Some [] \<longrightarrow> frame_rate ex = ''30'')
        \<and> (\<forall>r. rate = Some r \<and> r \<noteq> [] \<longrightarrow> frame_rate ex = r)
        \<and> (\<exists>k. py_lower fmt = replicate k (CHR ''.'') @ format ex)
        \<and> (format ex = [] \<or> hd (format ex) \<noteq> CHR ''.'')
        \<and> ffmpeg_cmd ex ! 4 = ''fps='' @ frame_rate ex)"
proof -
  have "init M video output rate fmt s = (Inr ex, s') \<longrightarrow>
        (rate = None \<or> rate = Some [] \<longrightarrow> frame_rate ex = ''30'')
        \<and> (\<forall>r. rate = Some r \<and> r \<noteq> [] \<longrightarrow> frame_rate ex = r)
        \<and> (\<exists>k. py_lower fmt = replicate k (CHR ''.'') @ format ex)
        \<and> (format ex = [] \<or> hd (format ex) \<noteq> CHR ''.'')
        \<and> ffmpeg_cmd ex ! 4 = ''fps='' @ frame_rate ex"
    using lstrip_chars_shape[of "py_lower fmt" "CHR ''.''"] lstrip_chars_head[of "CHR ''.''" "py_lower fmt"]
    by (auto simp: init_fields ffmpeg_cmd_def)
  moreover have "cli_fps c = None \<longrightarrow> a_fps (parse_args c) = None"
    by (simp add: parse_args_def)
  moreover have "cli_format c = None \<longrightarrow> a_format (parse_args c) = ''png''"
    by (simp add: parse_args_def)
  ultimately show ?thesis by blast
qed

theorem rate_and_format_defaults_witness:
  "a_format (parse_args \<lparr>cli_input = ''/videos/a.mp4'', cli_output = ''/out'', cli_fps = None,
                          cli_format = None, cli_quiet = False\<rparr>) = ''png''
   \<and> (case fst (init ok_machine ''/videos/a.mp4'' ''/out'' (Some ''12'') ''..JPG'' (start disk1)) of
        Inl e \<Rightarrow> False
      | Inr ex \<Rightarrow> frame_rate ex = ''12'' \<and> format ex = ''jpg'' \<and> ffmpeg_cmd ex ! 4 = ''fps=12'')"
proof -
  have "\<exists>ex s'. init ok_machine ''/videos/a.mp4'' ''/out'' (Some ''12'') ''..JPG'' (start disk1) = (Inr ex, s')"
    by (simp add: run_defs fs_defs str_defs sample_defs)
  then obtain ex s' where
    i: "init ok_machine ''/videos/a.mp4'' ''/out'' (Some ''12'') ''..JPG'' (start disk1) = (Inr ex, s')"
    by blast
  have f: "format ex = ''jpg''"
    using init_fields(4)[OF i] by (simp add: str_defs)
  from rate_and_format_defaults[of
      "\<lparr>cli_input = ''/videos/a.mp4'', cli_output = ''/out'', cli_fps = None,
        cli_format = None, cli_quiet = False\<rparr>"
      ok_machine "''/videos/a.mp4''" "''/out''" "Some ''12''" "''..JPG''" "start disk1" ex s'] i f
  show ?thesis by simp
qed

text \<open>
  The claim as it was stated fails for the empty rate: with \<open>--fps ""\<close> the filter
  expression of the command that is started is \<open>fps=30\<close>, not \<open>fps=\<close>.
\<close>

theorem empty_rate_not_passed_through:
  "last (spawned (trace (snd (main ok_machine
     \<lparr>cli_input = ''/videos/a.mp4'', cli_output = ''/out'', cli_fps = Some [],
      cli_format = None, cli_quiet = True\<rparr> (start disk1)))))
   = [''ffmpeg'', ''-i'', ''/videos/a.mp4'', ''-vf'', ''fps=30'', ''-start_number'', ''0'',
      ''/out/frame_%06d.png'']"
  by (simp add: run_defs fs_defs str_defs sample_defs)

section \<open>Validation of the input and of the binary\<close>

text \<open>
  Claim C4. When the resolved input path does not exist, \<open>main\<close> exits with status 1
  after writing the error of a \<open>FileNotFoundError\<close>, and the disk is as it was: nothing
  is created. The constructor itself, called on such a path, raises
  \<open>FileNotFoundError\<close> in its validation, before the output directory is created.
\<close>

theorem missing_input_exits_1:
  "\<not> path_exists (disk s) (resolve M (cli_input c)) \<Longrightarrow>
     main M c s
       = (Exit 1,
          emit (Err_error (FileNotFoundError
                  (''Input path not found: '' @ str_of_path (resolve M (cli_input c))))) s)
     \<and> disk (snd (main M c s)) = disk s
     \<and> (\<exists>msg s'. init M (cli_input c) output rate fmt s = (Inl (FileNotFoundError msg), s')
            \<and> disk s' = disk s \<and> trace s' = trace s)"
proof -
  assume n: "\<not> path_exists (disk s) (resolve M (cli_input c))"
  then have l: "lookup (disk s) (resolve M (cli_input c)) = None"
    by (simp add: path_exists_def)
  have m: "main M c s
       = (Exit 1,
          emit (Err_error (FileNotFoundError
                  (''Input path not found: '' @ str_of_path (resolve M (cli_input c))))) s)"
    using l by (simp add: main_def parse_args_def is_dir_def is_file_def main_except_def Let_def)
  obtain ex s1 where su: "setup_ffmpeg_paths (new_extractor M (cli_input c) output rate fmt) s = (ex, s1)"
    by (cases "setup_ffmpeg_paths (new_extractor M (cli_input c) output rate fmt) s")
  from setup_fields[OF su] have f: "video_path ex = resolve M (cli_input c)" "disk s1 = disk s" "trace s1 = trace s"
    by (simp_all add: new_extractor_def)
  with n have "\<not> path_exists (disk s1) (video_path ex)" by simp
  from validate_missing[OF this, of M] su
  have "init M (cli_input c) output rate fmt s
          = (Inl (FileNotFoundError (''Video file not found: '' @ str_of_path (video_path ex))), s1)"
    by (simp add: init_def)
  with f have "\<exists>msg s'. init M (cli_input c) output rate fmt s = (Inl (FileNotFoundError msg), s')
            \<and> disk s' = disk s \<and> trace s' = trace s" by blast
  with m show ?thesis by (simp add: emit_def)
qed

theorem missing_input_exits_1_witness:
  "\<not> path_exists disk1 [''videos'', ''missing.mp4'']
   \<and> exit_status (fst (main ok_machine
        \<lparr>cli_input = ''/videos/missing.mp4'', cli_output = ''/out/new'', cli_fps = None,
         cli_format = None, cli_quiet = False\<rparr> (start disk1))) = 1
   \<and> trace (snd (main ok_machine
        \<lparr>cli_input = ''/videos/missing.mp4'', cli_output = ''/out/new'', cli_fps = None,
         cli_format = None, cli_quiet = False\<rparr> (start disk1)))
      = [Err_error (FileNotFoundError ''Input path not found: /videos/missing.mp4'')]
   \<and> disk (snd (main ok_machine
        \<lparr>cli_input = ''/videos/missing.mp4'', cli_output = ''/out/new'', cli_fps = None,
         cli_format = None, cli_quiet = False\<rparr> (start disk1))) = disk1"
proof -
  have r: "resolve ok_machine ''/videos/missing.mp4'' = [''videos'', ''missing.mp4'']"
    by (simp add: sample_defs str_defs)
  have n: "\<not> path_exists disk1 [''videos'', ''missing.mp4'']"
    by (simp add: fs_defs disk1_def)
  have "\<not> path_exists (disk (start disk1))
          (resolve ok_machine (cli_input \<lparr>cli_input = ''/videos/missing.mp4'',
             cli_output = ''/out/new'', cli_fps = None, cli_format = None, cli_quiet = False\<rparr>))"
    using n r by (simp add: start_def)
  from missing_input_exits_1[OF this] n r show ?thesis
    by (simp add: start_def emit_def str_of_path_def)
qed



section \<open>The metadata probe: what is parsed, and what escapes\<close>



text \<open>
  Claim C1 says that no failure of the probe stops the extraction. Two runs on the
  sample disk in which it does. When the probing binary cannot be started, the
  \<open>FileNotFoundError\<close> leaves \<open>get_video_info\<close> and \<open>extract_frames\<close>, \<open>main\<close>
  prints it and exits with status 1. When the probe reports the rate \<open>0/0\<close>, the
  \<open>ZeroDivisionError\<close> of \<^verbatim>\<open>eval\<close> is caught nowhere. In both runs the commands
  started are the version check and the probe: the extraction is never started.
\<close>

theorem probe_failure_escapes:
  "fst (main no_probe_machine (sample_cli ''/videos/a.mp4'' ''/out'' False) (start disk1)) = Exit 1
   \<and> spawned (trace (snd (main no_probe_machine (sample_cli ''/videos/a.mp4'' ''/out'' False) (start disk1))))
       = [[''ffmpeg'', ''-version''],
          [''ffprobe'', ''-v'', ''error'', ''-select_streams'', ''v:0'', ''-show_entries'',
           ''stream=duration,r_frame_rate,width,height'', ''-of'',
           ''default=noprint_wrappers=1:nokey=1:noprint_section_header=1'', ''/videos/a.mp4'']]
   \<and> printed (trace (snd (main no_probe_machine (sample_cli ''/videos/a.mp4'' ''/out'' False) (start disk1))))
       = [Print_output_directory [''out''], Err_error (FileNotFoundError ''ffprobe'')]
   \<and> fst (main zero_rate_machine (sample_cli ''/videos/a.mp4'' ''/out'' False) (start disk1))
       = Uncaught ZeroDivisionError
   \<and> spawned (trace (snd (main zero_rate_machine (sample_cli ''/videos/a.mp4'' ''/out'' False) (start disk1))))
       = [[''ffmpeg'', ''-version''],
          [''ffprobe'', ''-v'', ''error'', ''-select_streams'', ''v:0'', ''-show_entries'',
           ''stream=duration,r_frame_rate,width,height'', ''-of'',
           ''default=noprint_wrappers=1:nokey=1:noprint_section_header=1'', ''/videos/a.mp4'']]"
  by (simp add: run_defs fs_defs str_defs sample_defs)

section \<open>The count of extracted frames\<close>



section \<open>Output directories in batch mode\<close>

text \<open>
  Claim C10. In the loop over the video files the output directory of a video is the
  output root joined with the stem of its name. So for two video files with the same
  name, in whatever directories they lie, the derived directories are equal, and
  when both are processed up to the extraction, the two extraction commands write to
  the same pattern in the same directory.
\<close>

theorem same_name_same_output_dir:
  assumes "path_name f1 = path_name f2"
    and "process_video M a ob f1 s1 = (Inr b1, t1)"
    and "process_video M a ob f2 s2 = (Inr b2, t2)"
  shows "joinpath ob (path_stem f1) = joinpath ob (path_stem f2)
     \<and> last (last (spawned (trace t1)))
         = str_of_path (joinpath (resolve M (str_of_path (joinpath ob (path_stem f1))))
             (''frame_%06d.'' @ lstrip_chars (CHR ''.'') (py_lower (a_format a))))
     \<and> last (last (spawned (trace t2))) = last (last (spawned (trace t1)))"
  using assms(1) process_video_pattern[OF assms(2)] process_video_pattern[OF assms(3)]
  by (simp add: path_stem_def)

theorem same_name_same_output_dir_witness:
  "[''library'', ''x'', ''clip.mp4''] \<in> set (find_video_files disk1 [''library''])
   \<and> [''library'', ''y'', ''clip.mp4''] \<in> set (find_video_files disk1 [''library''])
   \<and> last (last (spawned (trace (snd (process_video ok_machine
          (parse_args (sample_cli ''/library'' ''/out/frames'' True)) [''out'', ''frames'']
          [''library'', ''x'', ''clip.mp4''] (start disk1))))))
       = ''/out/frames/clip/frame_%06d.png''
   \<and> last (last (spawned (trace (snd (process_video ok_machine
          (parse_args (sample_cli ''/library'' ''/out/frames'' True)) [''out'', ''frames'']
          [''library'', ''y'', ''clip.mp4''] (start disk1))))))
       = ''/out/frames/clip/frame_%06d.png''"
proof -
  let ?a = "parse_args (sample_cli ''/library'' ''/out/frames'' True)"
  have n: "path_name [''library'', ''x'', ''clip.mp4''] = path_name [''library'', ''y'', ''clip.mp4'']"
    by (simp add: path_name_def)
  have "fst (process_video ok_machine ?a [''out'', ''frames''] [''library'', ''x'', ''clip.mp4'']
                (start disk1)) = Inr True"
    by (simp add: run_defs fs_defs str_defs sample_defs)
  then obtain t1 where p1: "process_video ok_machine ?a [''out'', ''frames'']
      [''library'', ''x'', ''clip.mp4''] (start disk1) = (Inr True, t1)"
    by (cases "process_video ok_machine ?a [''out'', ''frames''] [''library'', ''x'', ''clip.mp4'']
                 (start disk1)") simp
  have "fst (process_video ok_machine ?a [''out'', ''frames''] [''library'', ''y'', ''clip.mp4'']
                (start disk1)) = Inr True"
    by (simp add: run_defs fs_defs str_defs sample_defs)
  then obtain t2 where p2: "process_video ok_machine ?a [''out'', ''frames'']
      [''library'', ''y'', ''clip.mp4''] (start disk1) = (Inr True, t2)"
    by (cases "process_video ok_machine ?a [''out'', ''frames''] [''library'', ''y'', ''clip.mp4'']
                 (start disk1)") simp
  have f: "find_video_files disk1 [''library'']
       = [[''library'', ''x'', ''clip.mp4''], [''library'', ''y'', ''E.MKV''],
          [''library'', ''y'', ''clip.mp4'']]"
    by (simp add: fs_defs str_defs sample_defs)
  have e: "str_of_path (joinpath (resolve ok_machine
              (str_of_path (joinpath [''out'', ''frames''] (path_stem [''library'', ''x'', ''clip.mp4'']))))
             (''frame_%06d.'' @ lstrip_chars (CHR ''.'') (py_lower (a_format ?a))))
           = ''/out/frames/clip/frame_%06d.png''"
    by (simp add: run_defs str_defs sample_defs)
  from same_name_same_output_dir[OF n p1 p2] p1 p2 f e show ?thesis by simp
qed

section \<open>The loop over the video files\<close>





end
